theory Spec2Isabelle
  imports Main
begin

section \<open>Task cards and the task form\<close>

text \<open>
  The application consists of a card that shows one task (\<open>TaskCard.tsx\<close>) and a modal
  form that creates or edits a task (\<open>TaskForm\<close>).  Both are embedded here as pure
  functions.  A JavaScript string is a \<^typ>\<open>string\<close>, one \<^typ>\<open>char\<close> per code unit;
  \<open>undefined\<close> and \<open>null\<close> are \<^const>\<open>None\<close>.

  A handler is asynchronous and acts on its surroundings: it sets state, sends a request,
  calls a callback of its parent, shows a notification.  Its model returns the list of
  these acts in the order the code performs them.  What the server answers to a request
  is a parameter; a request that fails yields the error the code throws.  The callbacks
  and the notification function are taken to return normally.
\<close>

subsection \<open>Data model\<close>

text \<open>
  The \<open>Task\<close> interface of both components.  At run time a task is whatever row the
  server returned (the code casts it with \<open>as Task\<close>), so \<open>status\<close> and \<open>priority\<close> are
  strings here; the optional fields are \<^const>\<open>None\<close> when absent.
\<close>

record Task =
  id' :: string
  title :: string
  description :: "string option"
  status :: string
  priority :: string
  due_date :: "string option"
  created_at :: string
  updated_at :: string

datatype Status = Pending | In_progress | Completed

datatype Priority = Low | Medium | High

fun status_str :: "Status \<Rightarrow> string" where
  "status_str Pending = ''pending''"
| "status_str In_progress = ''in_progress''"
| "status_str Completed = ''completed''"

fun priority_str :: "Priority \<Rightarrow> string" where
  "priority_str Low = ''low''"
| "priority_str Medium = ''medium''"
| "priority_str High = ''high''"

text \<open>The authenticated user of \<open>useAuth\<close>; only \<open>user.id\<close> is read.\<close>

datatype User = User (user_id: string)

text \<open>
  A row sent to the server is an object literal: its keys in order, each with a string or
  \<open>null\<close>.  A request is one of the two calls the components make,
  \<open>from(table).update(row).eq(column, value)\<close> and \<open>from(table).insert([row])\<close>, both
  followed by \<open>.select().single()\<close>.
\<close>

datatype json = JNull | JString string

type_synonym row = "(string \<times> json) list"

datatype request =
  Update string row "string \<times> string"
| Insert string "row list"

fun payload :: "request \<Rightarrow> row list" where
  "payload (Update table r eq) = [r]"
| "payload (Insert table rs) = rs"

text \<open>A thrown value, with its \<open>message\<close>.\<close>

datatype error = RangeError string | PostgrestError string

fun message :: "error \<Rightarrow> string" where
  "message (RangeError m) = m"
| "message (PostgrestError m) = m"

text \<open>The server: what \<open>await\<close> yields for a request, \<open>{error}\<close> or \<open>{data}\<close>.\<close>

type_synonym server = "request \<Rightarrow> error + Task"

datatype toast = Toast (toast_title: string) (toast_description: string) (variant: "string option")

datatype issue_code = too_small | too_big | invalid_enum_value

text \<open>
  A validation issue: the field, the kind of check that failed, and the message given in
  the schema (\<^const>\<open>None\<close> where the schema gives none and the library's default is used).
\<close>

datatype issue = Issue (path: string) (kind: issue_code) (issue_message: "string option")

text \<open>What a handler does, in order.\<close>

datatype event =
  SetUpdating bool
| SetLoading bool
| Request request
| OnUpdate Task
| OnSave Task
| ShowToast toast
| SetErrors "issue list"

definition requests :: "event list \<Rightarrow> request list" where
  "requests evs = concat (map (\<lambda>e. case e of Request r \<Rightarrow> [r] | _ \<Rightarrow> []) evs)"

definition saved :: "event list \<Rightarrow> Task list" where
  "saved evs = concat (map (\<lambda>e. case e of OnSave t \<Rightarrow> [t] | _ \<Rightarrow> []) evs)"

definition updated :: "event list \<Rightarrow> Task list" where
  "updated evs = concat (map (\<lambda>e. case e of OnUpdate t \<Rightarrow> [t] | _ \<Rightarrow> []) evs)"

definition toasts :: "event list \<Rightarrow> toast list" where
  "toasts evs = concat (map (\<lambda>e. case e of ShowToast t \<Rightarrow> [t] | _ \<Rightarrow> []) evs)"

subsection \<open>Dates of the host\<close>

text \<open>
  \<open>Date\<close> is the host's.  A time value is a number of milliseconds since the epoch, or
  \<open>NaN\<close> (\<^const>\<open>None\<close>) for an invalid date.  The definitions follow the ECMAScript
  specification, whose names they keep.  The host supplies the clock, the local time zone
  adjustment and the parsing of every string that is not a valid date of the form
  \<open>YYYY-MM-DD\<close>, on which all hosts agree.
\<close>

record host =
  Date_now :: int
  LocalTZA :: "int \<Rightarrow> bool \<Rightarrow> int"
  legacy_parse :: "string \<Rightarrow> int option"
  RangeError_message :: string

definition msPerDay :: int where
  "msPerDay = 86400000"

definition Day :: "int \<Rightarrow> int" where
  "Day t = t div msPerDay"

definition TimeWithinDay :: "int \<Rightarrow> int" where
  "TimeWithinDay t = t mod msPerDay"

definition DaysInYear :: "int \<Rightarrow> int" where
  "DaysInYear y =
     (if y mod 4 \<noteq> 0 then 365
      else if y mod 100 \<noteq> 0 then 366
      else if y mod 400 \<noteq> 0 then 365
      else 366)"

definition DayFromYear :: "int \<Rightarrow> int" where
  "DayFromYear y =
     365 * (y - 1970) + (y - 1969) div 4 - (y - 1901) div 100 + (y - 1601) div 400"

text \<open>
  The year of a day: the largest \<open>y\<close> with \<open>DayFromYear y \<le> d\<close>, found from an estimate
  that is off by at most one.
\<close>

definition YearFromDay :: "int \<Rightarrow> int" where
  "YearFromDay d =
     (let y = 1970 + (400 * d) div 146097 in
      if d < DayFromYear y then y - 1
      else if DayFromYear (y + 1) \<le> d then y + 1
      else y)"

definition YearFromTime :: "int \<Rightarrow> int" where
  "YearFromTime t = YearFromDay (Day t)"

definition InLeapYear :: "int \<Rightarrow> int" where
  "InLeapYear t = (if DaysInYear (YearFromTime t) = 366 then 1 else 0)"

definition DayWithinYear :: "int \<Rightarrow> int" where
  "DayWithinYear t = Day t - DayFromYear (YearFromTime t)"

definition MonthFromTime :: "int \<Rightarrow> int" where
  "MonthFromTime t =
     (let d = DayWithinYear t; l = InLeapYear t in
      if d < 31 then 0
      else if d < 59 + l then 1
      else if d < 90 + l then 2
      else if d < 120 + l then 3
      else if d < 151 + l then 4
      else if d < 181 + l then 5
      else if d < 212 + l then 6
      else if d < 243 + l then 7
      else if d < 273 + l then 8
      else if d < 304 + l then 9
      else if d < 334 + l then 10
      else 11)"

definition DateFromTime :: "int \<Rightarrow> int" where
  "DateFromTime t =
     (let d = DayWithinYear t; l = InLeapYear t; m = MonthFromTime t in
      if m = 0 then d + 1
      else if m = 1 then d - 30
      else if m = 2 then d - 58 - l
      else if m = 3 then d - 89 - l
      else if m = 4 then d - 119 - l
      else if m = 5 then d - 150 - l
      else if m = 6 then d - 180 - l
      else if m = 7 then d - 211 - l
      else if m = 8 then d - 242 - l
      else if m = 9 then d - 272 - l
      else if m = 10 then d - 303 - l
      else d - 333 - l)"

definition HourFromTime :: "int \<Rightarrow> int" where
  "HourFromTime t = (t div 3600000) mod 24"

definition MinFromTime :: "int \<Rightarrow> int" where
  "MinFromTime t = (t div 60000) mod 60"

definition SecFromTime :: "int \<Rightarrow> int" where
  "SecFromTime t = (t div 1000) mod 60"

definition msFromTime :: "int \<Rightarrow> int" where
  "msFromTime t = t mod 1000"

definition TimeClip :: "int \<Rightarrow> int option" where
  "TimeClip t = (if 8640000000000000 < \<bar>t\<bar> then None else Some t)"

text \<open>Local time and back, with the host's adjustment.\<close>

definition LocalTime :: "host \<Rightarrow> int \<Rightarrow> int" where
  "LocalTime h t = t + LocalTZA h t True"

definition UTC :: "host \<Rightarrow> int \<Rightarrow> int" where
  "UTC h t = t - LocalTZA h t False"

text \<open>\<open>date.setHours(0, 0, 0, 0)\<close>: the start of the local day of \<open>date\<close>.\<close>

definition setHours0 :: "host \<Rightarrow> int option \<Rightarrow> int option" where
  "setHours0 h date =
     (case date of
        None \<Rightarrow> None
      | Some t \<Rightarrow> TimeClip (UTC h (Day (LocalTime h t) * msPerDay)))"

text \<open>Decimal digits.\<close>

definition is_digit :: "char \<Rightarrow> bool" where
  "is_digit c = (c \<in> set ''0123456789'')"

definition digit_val :: "char \<Rightarrow> int" where
  "digit_val c = int (of_char c) - 48"

definition digit_char :: "int \<Rightarrow> char" where
  "digit_char n = ''0123456789'' ! nat (n mod 10)"

definition pad2 :: "int \<Rightarrow> string" where
  "pad2 n = [digit_char (n div 10), digit_char n]"

definition pad3 :: "int \<Rightarrow> string" where
  "pad3 n = [digit_char (n div 100), digit_char (n div 10), digit_char n]"

definition pad4 :: "int \<Rightarrow> string" where
  "pad4 n = [digit_char (n div 1000), digit_char (n div 100), digit_char (n div 10), digit_char n]"

definition pad6 :: "int \<Rightarrow> string" where
  "pad6 n = [digit_char (n div 100000), digit_char (n div 10000)] @ pad4 n"

text \<open>Days in month \<open>m\<close> (from 1) of year \<open>y\<close>, and days of the year before that month.\<close>

definition DaysInMonth :: "int \<Rightarrow> int \<Rightarrow> int" where
  "DaysInMonth y m =
     (if m = 2 then (if DaysInYear y = 366 then 29 else 28)
      else if m = 4 \<or> m = 6 \<or> m = 9 \<or> m = 11 then 30
      else 31)"

definition DaysBeforeMonth :: "int \<Rightarrow> int \<Rightarrow> int" where
  "DaysBeforeMonth y m =
     (let l = (if DaysInYear y = 366 then 1 else 0) in
      if m = 1 then 0
      else if m = 2 then 31
      else if m = 3 then 59 + l
      else if m = 4 then 90 + l
      else if m = 5 then 120 + l
      else if m = 6 then 151 + l
      else if m = 7 then 181 + l
      else if m = 8 then 212 + l
      else if m = 9 then 243 + l
      else if m = 10 then 273 + l
      else if m = 11 then 304 + l
      else 334 + l)"

definition MakeDay :: "int \<Rightarrow> int \<Rightarrow> int \<Rightarrow> int" where
  "MakeDay y m d = DayFromYear y + DaysBeforeMonth y m + (d - 1)"

text \<open>
  A date-only string \<open>YYYY-MM-DD\<close> that names a day of the calendar is midnight UTC of
  that day.
\<close>

definition parse_date_only :: "string \<Rightarrow> int option" where
  "parse_date_only s =
     (if length s = 10 \<and> s ! 4 = CHR ''-'' \<and> s ! 7 = CHR ''-''
         \<and> list_all is_digit (take 4 s @ take 2 (drop 5 s) @ drop 8 s)
      then
        (let y = 1000 * digit_val (s ! 0) + 100 * digit_val (s ! 1)
                 + 10 * digit_val (s ! 2) + digit_val (s ! 3);
             m = 10 * digit_val (s ! 5) + digit_val (s ! 6);
             d = 10 * digit_val (s ! 8) + digit_val (s ! 9)
         in if 1 \<le> m \<and> m \<le> 12 \<and> 1 \<le> d \<and> d \<le> DaysInMonth y m
            then Some (MakeDay y m d * msPerDay)
            else None)
      else None)"

text \<open>\<open>new Date(s)\<close> for a string \<open>s\<close>.\<close>

definition newDate :: "host \<Rightarrow> string \<Rightarrow> int option" where
  "newDate h s =
     (case parse_date_only s of
        Some t \<Rightarrow> Some t
      | None \<Rightarrow> (case legacy_parse h s of None \<Rightarrow> None | Some t \<Rightarrow> TimeClip t))"

text \<open>\<open>new Date()\<close>.\<close>

definition newDateNow :: "host \<Rightarrow> int option" where
  "newDateNow h = TimeClip (Date_now h)"

definition iso_year :: "int \<Rightarrow> string" where
  "iso_year y =
     (if 0 \<le> y \<and> y \<le> 9999 then pad4 y
      else if y < 0 then CHR ''-'' # pad6 (- y)
      else CHR ''+'' # pad6 y)"

definition iso_string :: "int \<Rightarrow> string" where
  "iso_string t =
     iso_year (YearFromTime t) @ ''-'' @ pad2 (MonthFromTime t + 1) @ ''-''
       @ pad2 (DateFromTime t) @ ''T'' @ pad2 (HourFromTime t) @ '':''
       @ pad2 (MinFromTime t) @ '':'' @ pad2 (SecFromTime t) @ ''.''
       @ pad3 (msFromTime t) @ ''Z''"

text \<open>\<open>date.toISOString()\<close>: throws a \<open>RangeError\<close> on an invalid date.\<close>

definition toISOString :: "host \<Rightarrow> int option \<Rightarrow> error + string" where
  "toISOString h date =
     (case date of
        None \<Rightarrow> Inl (RangeError (RangeError_message h))
      | Some t \<Rightarrow> Inr (iso_string t))"

text \<open>\<open>a < b\<close> on two dates: false when either is \<open>NaN\<close>.\<close>

definition date_less :: "int option \<Rightarrow> int option \<Rightarrow> bool" where
  "date_less a b =
     (case a of
        None \<Rightarrow> False
      | Some x \<Rightarrow> (case b of None \<Rightarrow> False | Some y \<Rightarrow> x < y))"

subsection \<open>Display colours (\<open>TaskCard.tsx\<close>, lines 32--56)\<close>

definition default_style :: string where
  "default_style = ''bg-secondary text-secondary-foreground hover:bg-secondary/80''"

definition getStatusColor :: "string \<Rightarrow> string" where
  "getStatusColor status' =
     (if status' = ''pending'' then
        ''bg-yellow-100 text-yellow-800 hover:bg-yellow-200 dark:bg-yellow-900/20 dark:text-yellow-300''
      else if status' = ''in_progress'' then
        ''bg-blue-100 text-blue-800 hover:bg-blue-200 dark:bg-blue-900/20 dark:text-blue-300''
      else if status' = ''completed'' then
        ''bg-green-100 text-green-800 hover:bg-green-200 dark:bg-green-900/20 dark:text-green-300''
      else ''bg-secondary text-secondary-foreground hover:bg-secondary/80'')"

definition getPriorityColor :: "string \<Rightarrow> string" where
  "getPriorityColor priority' =
     (if priority' = ''high'' then
        ''bg-red-100 text-red-800 hover:bg-red-200 dark:bg-red-900/20 dark:text-red-300''
      else if priority' = ''medium'' then
        ''bg-orange-100 text-orange-800 hover:bg-orange-200 dark:bg-orange-900/20 dark:text-orange-300''
      else if priority' = ''low'' then
        ''bg-gray-100 text-gray-800 hover:bg-gray-200 dark:bg-gray-900/20 dark:text-gray-300''
      else ''bg-secondary text-secondary-foreground hover:bg-secondary/80'')"

subsection \<open>Overdue tasks (\<open>TaskCard.tsx\<close>, lines 62--68)\<close>

text \<open>\<open>today\<close>: the current time, set back to the start of the local day.\<close>

definition today :: "host \<Rightarrow> int option" where
  "today h = setHours0 h (newDateNow h)"

definition isOverdue :: "host \<Rightarrow> Task \<Rightarrow> string option \<Rightarrow> bool" where
  "isOverdue h task dueDateString =
     (case dueDateString of
        None \<Rightarrow> False
      | Some s \<Rightarrow>
          if s = [] then False
          else date_less (newDate h s) (today h) \<and> status task \<noteq> ''completed'')"

subsection \<open>Quick status change (\<open>TaskCard.tsx\<close>, lines 70--96)\<close>

text \<open>\<open>error.message || fallback\<close>\<close>

definition message_or :: "error \<Rightarrow> string \<Rightarrow> string" where
  "message_or e fallback = (if message e = [] then fallback else message e)"

definition handleStatusChange :: "server \<Rightarrow> Task \<Rightarrow> Status \<Rightarrow> event list" where
  "handleStatusChange supabase task newStatus =
     (let r = Update ''tasks'' [(''status'', JString (status_str newStatus))] (''id'', id' task)
      in [SetUpdating True, Request r]
         @ (case supabase r of
              Inr updatedTask \<Rightarrow>
                [OnUpdate updatedTask,
                 ShowToast (Toast ''Success'' ''Task status updated successfully'' None)]
            | Inl e \<Rightarrow>
                [ShowToast (Toast ''Error'' (message_or e ''Failed to update task status'')
                   (Some ''destructive''))])
         @ [SetUpdating False])"

text \<open>The card's state is the flag \<open>updating\<close>, which disables the status control.\<close>

fun card_step :: "bool \<Rightarrow> event \<Rightarrow> bool" where
  "card_step updating (SetUpdating b) = b"
| "card_step updating e = updating"

definition updating_after :: "bool \<Rightarrow> event list \<Rightarrow> bool" where
  "updating_after updating evs = foldl card_step updating evs"

subsection \<open>The form's schema (\<open>TaskForm\<close>, lines 16--22)\<close>

text \<open>The values of the form's fields, and what the schema makes of them.\<close>

record FormValues =
  raw_title :: string
  raw_description :: "string option"
  raw_status :: string
  raw_priority :: string
  raw_due_date :: "string option"

record TaskFormData =
  data_title :: string
  data_description :: "string option"
  data_status :: Status
  data_priority :: Priority
  data_due_date :: "string option"

definition title_issues :: "string \<Rightarrow> issue list" where
  "title_issues t =
     (if length t < 1 then [Issue ''title'' too_small (Some ''Title is required'')] else [])
     @ (if 100 < length t
        then [Issue ''title'' too_big (Some ''Title must be less than 100 characters'')]
        else [])"

definition parse_status :: "string \<Rightarrow> Status option" where
  "parse_status s =
     (if s = ''pending'' then Some Pending
      else if s = ''in_progress'' then Some In_progress
      else if s = ''completed'' then Some Completed
      else None)"

definition parse_priority :: "string \<Rightarrow> Priority option" where
  "parse_priority s =
     (if s = ''low'' then Some Low
      else if s = ''medium'' then Some Medium
      else if s = ''high'' then Some High
      else None)"

definition enum_issues :: "string \<Rightarrow> 'a option \<Rightarrow> issue list" where
  "enum_issues field v =
     (case v of None \<Rightarrow> [Issue field invalid_enum_value None] | Some x \<Rightarrow> [])"

definition taskSchema :: "FormValues \<Rightarrow> issue list + TaskFormData" where
  "taskSchema v =
     (let st = parse_status (raw_status v);
          pr = parse_priority (raw_priority v);
          issues = title_issues (raw_title v) @ enum_issues ''status'' st
                   @ enum_issues ''priority'' pr
      in case st of
           None \<Rightarrow> Inl issues
         | Some s \<Rightarrow>
             (case pr of
                None \<Rightarrow> Inl issues
              | Some p \<Rightarrow>
                  if issues = [] then
                    Inr \<lparr>data_title = raw_title v, data_description = raw_description v,
                         data_status = s, data_priority = p,
                         data_due_date = raw_due_date v\<rparr>
                  else Inl issues))"

text \<open>\<open>errors.title.message\<close>: the message of the first issue of the field.\<close>

definition field_error :: "issue list \<Rightarrow> string \<Rightarrow> string option" where
  "field_error issues field =
     (case filter (\<lambda>i. path i = field) issues of
        [] \<Rightarrow> None
      | i # rest \<Rightarrow> issue_message i)"

subsection \<open>Submitting the form (\<open>TaskForm\<close>, lines 58--112)\<close>

text \<open>\<open>s || null\<close>\<close>

definition or_null :: "string option \<Rightarrow> json" where
  "or_null v = (case v of None \<Rightarrow> JNull | Some s \<Rightarrow> if s = [] then JNull else JString s)"

text \<open>The object \<open>taskData\<close>; building it throws when the due date is not a valid date.\<close>

definition taskData :: "host \<Rightarrow> User \<Rightarrow> TaskFormData \<Rightarrow> error + row" where
  "taskData h user data =
     (case (case data_due_date data of
              None \<Rightarrow> Inr JNull
            | Some s \<Rightarrow>
                if s = [] then Inr JNull
                else (case toISOString h (newDate h s) of
                        Inl e \<Rightarrow> Inl e
                      | Inr str \<Rightarrow> Inr (JString str))) of
        Inl e \<Rightarrow> Inl e
      | Inr due \<Rightarrow>
          Inr [(''title'', JString (data_title data)),
               (''description'', or_null (data_description data)),
               (''status'', JString (status_str (data_status data))),
               (''priority'', JString (priority_str (data_priority data))),
               (''due_date'', due),
               (''user_id'', JString (user_id user))])"

definition catch_toast :: "error \<Rightarrow> event" where
  "catch_toast e =
     ShowToast (Toast ''Error'' (message_or e ''Failed to save task'') (Some ''destructive''))"

definition handleSubmit ::
  "host \<Rightarrow> User option \<Rightarrow> server \<Rightarrow> Task option \<Rightarrow> TaskFormData \<Rightarrow> event list" where
  "handleSubmit h user supabase task data =
     (case user of
        None \<Rightarrow> []
      | Some u \<Rightarrow>
          [SetLoading True]
          @ (case taskData h u data of
               Inl e \<Rightarrow> [catch_toast e]
             | Inr td \<Rightarrow>
                 (case task of
                    Some t \<Rightarrow>
                      (let r = Update ''tasks'' td (''id'', id' t)
                       in Request r
                          # (case supabase r of
                               Inl e \<Rightarrow> [catch_toast e]
                             | Inr updatedTask \<Rightarrow>
                                 [OnSave updatedTask,
                                  ShowToast (Toast ''Success'' ''Task updated successfully'' None)]))
                  | None \<Rightarrow>
                      (let r = Insert ''tasks'' [td]
                       in Request r
                          # (case supabase r of
                               Inl e \<Rightarrow> [catch_toast e]
                             | Inr newTask \<Rightarrow>
                                 [OnSave newTask,
                                  ShowToast (Toast ''Success'' ''Task created successfully'' None)]))))
          @ [SetLoading False])"

text \<open>
  \<open>form.handleSubmit(handleSubmit)\<close>: the values are checked against the schema first,
  and the handler runs only on values that pass; otherwise the issues become the form's
  errors.
\<close>

definition form_handleSubmit ::
  "host \<Rightarrow> User option \<Rightarrow> server \<Rightarrow> Task option \<Rightarrow> FormValues \<Rightarrow> event list" where
  "form_handleSubmit h user supabase task v =
     (case taskSchema v of
        Inl issues \<Rightarrow> [SetErrors issues]
      | Inr data \<Rightarrow> handleSubmit h user supabase task data)"

text \<open>
  The form's state: the flag \<open>loading\<close>, which disables the submit control, and the
  values of the fields.
\<close>

record form_state =
  loading :: bool
  field_values :: FormValues

fun form_step :: "form_state \<Rightarrow> event \<Rightarrow> form_state" where
  "form_step s (SetLoading b) = s\<lparr>loading := b\<rparr>"
| "form_step s e = s"

definition form_after :: "form_state \<Rightarrow> event list \<Rightarrow> form_state" where
  "form_after s evs = foldl form_step s evs"

subsection \<open>What the specification calls a plain date\<close>

text \<open>
  The specification's words, not the code's: a plain date string is a calendar date
  \<open>YYYY-MM-DD\<close> with no time of day.
\<close>

definition is_plain_date :: "string \<Rightarrow> bool" where
  "is_plain_date s =
     (length s = 10 \<and> s ! 4 = CHR ''-'' \<and> s ! 7 = CHR ''-''
      \<and> list_all is_digit (take 4 s @ take 2 (drop 5 s) @ drop 8 s))"


subsection \<open>Example inputs\<close>

text \<open>
  A browser five hours west of Greenwich, at noon local time on 15 January 2024, whose
  parser rejects whatever is not a date of the form \<open>YYYY-MM-DD\<close>.
\<close>

definition example_host :: host where
  "example_host =
     \<lparr>Date_now = 1705338000000, LocalTZA = (\<lambda>t u. - 18000000),
      legacy_parse = (\<lambda>s. None), RangeError_message = ''Invalid time value''\<rparr>"

definition example_task :: Task where
  "example_task =
     \<lparr>id' = ''t1'', title = ''Buy milk'', description = None, status = ''pending'',
      priority = ''low'', due_date = Some ''2024-01-14'',
      created_at = ''2024-01-01T09:00:00.000Z'', updated_at = ''2024-01-01T09:00:00.000Z''\<rparr>"

definition example_user :: User where
  "example_user = User ''u1''"

definition example_values :: FormValues where
  "example_values =
     \<lparr>raw_title = ''Buy milk'', raw_description = Some [], raw_status = ''pending'',
      raw_priority = ''medium'', raw_due_date = Some ''2024-01-15''\<rparr>"

definition example_data :: TaskFormData where
  "example_data =
     \<lparr>data_title = ''Buy milk'', data_description = Some [], data_status = Pending,
      data_priority = Medium, data_due_date = Some []\<rparr>"

text \<open>A server that answers every request with one row, and one that fails every request.\<close>

definition server_ok :: server where
  "server_ok r = Inr (example_task\<lparr>updated_at := ''2024-01-15T17:00:00.000Z''\<rparr>)"

definition server_down :: server where
  "server_down r = Inl (PostgrestError ''TypeError: Failed to fetch'')"

text \<open>The request a submission makes for a row: an update by id of the task edited, or an insert.\<close>

definition request_of :: "Task option \<Rightarrow> row \<Rightarrow> request" where
  "request_of task td =
     (case task of Some t \<Rightarrow> Update ''tasks'' td (''id'', id' t) | None \<Rightarrow> Insert ''tasks'' [td])"

section \<open>Properties\<close>

subsection \<open>Reading a trace\<close>

lemma requests_simps:
  "requests [] = []"
  "requests (Request r # evs) = r # requests evs"
  "requests (SetUpdating b # evs) = requests evs"
  "requests (SetLoading b # evs) = requests evs"
  "requests (OnUpdate t # evs) = requests evs"
  "requests (OnSave t # evs) = requests evs"
  "requests (ShowToast n # evs) = requests evs"
  "requests (SetErrors i # evs) = requests evs"
  "requests (evs @ evs') = requests evs @ requests evs'"
  by (simp_all add: requests_def)

lemma saved_simps:
  "saved [] = []"
  "saved (Request r # evs) = saved evs"
  "saved (SetUpdating b # evs) = saved evs"
  "saved (SetLoading b # evs) = saved evs"
  "saved (OnUpdate t # evs) = saved evs"
  "saved (OnSave t # evs) = t # saved evs"
  "saved (ShowToast n # evs) = saved evs"
  "saved (SetErrors i # evs) = saved evs"
  "saved (evs @ evs') = saved evs @ saved evs'"
  by (simp_all add: saved_def)

lemma updated_simps:
  "updated [] = []"
  "updated (Request r # evs) = updated evs"
  "updated (SetUpdating b # evs) = updated evs"
  "updated (SetLoading b # evs) = updated evs"
  "updated (OnUpdate t # evs) = t # updated evs"
  "updated (OnSave t # evs) = updated evs"
  "updated (ShowToast n # evs) = updated evs"
  "updated (SetErrors i # evs) = updated evs"
  "updated (evs @ evs') = updated evs @ updated evs'"
  by (simp_all add: updated_def)

lemma toasts_simps:
  "toasts [] = []"
  "toasts (Request r # evs) = toasts evs"
  "toasts (SetUpdating b # evs) = toasts evs"
  "toasts (SetLoading b # evs) = toasts evs"
  "toasts (OnUpdate t # evs) = toasts evs"
  "toasts (OnSave t # evs) = toasts evs"
  "toasts (ShowToast n # evs) = n # toasts evs"
  "toasts (SetErrors i # evs) = toasts evs"
  "toasts (evs @ evs') = toasts evs @ toasts evs'"
  by (simp_all add: toasts_def)

lemmas trace_simps = requests_simps saved_simps updated_simps toasts_simps

subsection \<open>The calendar\<close>

text \<open>\<^const>\<open>YearFromDay\<close> is the year the specification of the language asks for.\<close>

lemma div_lower: "0 < k \<Longrightarrow> k * (a div k) \<le> (a::int)"
  using mult_div_mod_eq [of k a] pos_mod_sign [of k a] by linarith

lemma div_upper: "0 < k \<Longrightarrow> (a::int) < k * (a div k) + k"
  using mult_div_mod_eq [of k a] pos_mod_bound [of k a] by linarith

lemma DayFromYear_upper: "400 * DayFromYear y \<le> 146097 * (y - 1970) + 589"
  using div_lower [of 4 "y - 1969"] div_upper [of 100 "y - 1901"] div_lower [of 400 "y - 1601"]
  unfolding DayFromYear_def by simp

lemma DayFromYear_lower: "146097 * (y - 1970) - 506 \<le> 400 * DayFromYear y"
  using div_upper [of 4 "y - 1969"] div_lower [of 100 "y - 1901"] div_upper [of 400 "y - 1601"]
  unfolding DayFromYear_def by simp

lemma YearFromDay_spec:
  "DayFromYear (YearFromDay d) \<le> d \<and> d < DayFromYear (YearFromDay d + 1)"
proof -
  define y where "y = 1970 + (400 * d) div 146097"
  have b: "146097 * (y - 1970) \<le> 400 * d" "400 * d < 146097 * (y - 1970) + 146097"
    using div_lower [of 146097 "400 * d"] div_upper [of 146097 "400 * d"]
    unfolding y_def by simp_all
  have "400 * DayFromYear (y - 1) \<le> 400 * d"
    using DayFromYear_upper [of "y - 1"] b by (simp add: algebra_simps)
  then have lo: "DayFromYear (y - 1) \<le> d" by simp
  have "400 * d < 400 * DayFromYear (y + 2)"
    using DayFromYear_lower [of "y + 2"] b by (simp add: algebra_simps)
  then have hi: "d < DayFromYear (y + 2)" by simp
  show ?thesis
    using lo hi unfolding YearFromDay_def Let_def y_def [symmetric]
    by (auto simp: algebra_simps)
qed

lemma div_step:
  fixes a k :: int
  assumes "0 < k"
  shows "(a + 1) div k = a div k + (if (a + 1) mod k = 0 then 1 else 0)"
proof (cases "a mod k + 1 = k")
  case True
  have "k * (a div k + 1) = k * (a div k) + k"
    by (simp add: algebra_simps)
  then have eq: "a + 1 = k * (a div k + 1) + 0"
    using mult_div_mod_eq [of k a] True by linarith
  have "(a + 1) div k = a div k + 1"
    using int_div_pos_eq [OF eq] assms by simp
  moreover have "(a + 1) mod k = 0"
    using int_mod_pos_eq [OF eq] assms by simp
  ultimately show ?thesis by simp
next
  case False
  have r: "0 \<le> a mod k + 1" "a mod k + 1 < k"
    using pos_mod_sign [OF assms, of a] pos_mod_bound [OF assms, of a] False by linarith+
  have eq: "a + 1 = k * (a div k) + (a mod k + 1)"
    using mult_div_mod_eq [of k a] by linarith
  have "(a + 1) div k = a div k"
    using int_div_pos_eq [OF eq r] .
  moreover have "(a + 1) mod k = a mod k + 1"
    using int_mod_pos_eq [OF eq r] .
  moreover have "a mod k + 1 \<noteq> 0"
    using pos_mod_sign [OF assms, of a] by linarith
  ultimately show ?thesis by simp
qed

text \<open>Each year adds its days, so the first day of a year grows with the year.\<close>

lemma mod_shift: "k dvd c \<Longrightarrow> ((y - c) mod k = 0) = (y mod k = (0::int))"
proof -
  assume c: "k dvd c"
  have "k dvd y - c \<longleftrightarrow> k dvd y"
  proof
    assume "k dvd y - c"
    then have "k dvd (y - c) + c" using c by (rule dvd_add)
    then show "k dvd y" by simp
  next
    assume "k dvd y"
    then show "k dvd y - c" using c by (rule dvd_diff)
  qed
  then show ?thesis by (simp add: mod_eq_0_iff_dvd)
qed

lemma DaysInYear_dvd:
  "DaysInYear y =
     (if \<not> 4 dvd y then 365 else if \<not> 100 dvd y then 366 else if \<not> 400 dvd y then 365 else 366)"
  by (simp add: DaysInYear_def mod_eq_0_iff_dvd)

lemma dvd_chain: "400 dvd (y::int) \<Longrightarrow> 100 dvd y" "100 dvd (y::int) \<Longrightarrow> 4 dvd y"
proof -
  have a: "(100::int) dvd 400" and b: "(4::int) dvd 100" by simp_all
  show "400 dvd y \<Longrightarrow> 100 dvd y" using a by (rule dvd_trans)
  show "100 dvd y \<Longrightarrow> 4 dvd y" using b by (rule dvd_trans)
qed

lemma DayFromYear_Suc: "DayFromYear (y + 1) = DayFromYear y + DaysInYear y"
proof -
  have s4: "(y - 1968) div 4 = (y - 1969) div 4 + (if 4 dvd y then 1 else 0)"
    using div_step [of 4 "y - 1969"] mod_shift [of 4 1968 y]
    by (simp add: mod_eq_0_iff_dvd)
  have s100: "(y - 1900) div 100 = (y - 1901) div 100 + (if 100 dvd y then 1 else 0)"
    using div_step [of 100 "y - 1901"] mod_shift [of 100 1900 y]
    by (simp add: mod_eq_0_iff_dvd)
  have s400: "(y - 1600) div 400 = (y - 1601) div 400 + (if 400 dvd y then 1 else 0)"
    using div_step [of 400 "y - 1601"] mod_shift [of 400 1600 y]
    by (simp add: mod_eq_0_iff_dvd)
  have "DayFromYear (y + 1) =
      365 * (y - 1969) + (y - 1968) div 4 - (y - 1900) div 100 + (y - 1600) div 400"
    by (simp add: DayFromYear_def)
  then show ?thesis
    using dvd_chain [of y]
    by (auto simp: s4 s100 s400 DayFromYear_def DaysInYear_dvd)
qed

lemma DaysInYear_pos: "365 \<le> DaysInYear y"
  by (simp add: DaysInYear_def)

lemma DayFromYear_add: "DayFromYear y + 365 * int n \<le> DayFromYear (y + int n)"
proof (induction n)
  case 0
  show ?case by simp
next
  case (Suc n)
  have "DayFromYear (y + int (Suc n)) = DayFromYear (y + int n) + DaysInYear (y + int n)"
    using DayFromYear_Suc [of "y + int n"] by (simp add: algebra_simps)
  then show ?case
    using Suc DaysInYear_pos [of "y + int n"] by simp
qed

lemma DayFromYear_mono: "a \<le> b \<Longrightarrow> DayFromYear a \<le> DayFromYear b"
  using DayFromYear_add [of a "nat (b - a)"] by simp

lemma YearFromDay_unique:
  assumes "DayFromYear y \<le> d" "d < DayFromYear (y + 1)"
  shows "YearFromDay d = y"
proof (rule ccontr)
  assume ne: "YearFromDay d \<noteq> y"
  let ?z = "YearFromDay d"
  have z: "DayFromYear ?z \<le> d" "d < DayFromYear (?z + 1)"
    using YearFromDay_spec [of d] by simp_all
  show False
  proof (cases "?z < y")
    case True
    then have "DayFromYear (?z + 1) \<le> DayFromYear y"
      by (intro DayFromYear_mono) simp
    with z assms show False by linarith
  next
    case False
    with ne have "DayFromYear (y + 1) \<le> DayFromYear ?z"
      by (intro DayFromYear_mono) simp
    with z assms show False by linarith
  qed
qed

text \<open>Digits written and read back.\<close>

lemma is_digit_cases:
  "is_digit c \<Longrightarrow>
   c = CHR ''0'' \<or> c = CHR ''1'' \<or> c = CHR ''2'' \<or> c = CHR ''3'' \<or> c = CHR ''4''
   \<or> c = CHR ''5'' \<or> c = CHR ''6'' \<or> c = CHR ''7'' \<or> c = CHR ''8'' \<or> c = CHR ''9''"
  by (simp add: is_digit_def)

lemma digit_val_range: "is_digit c \<Longrightarrow> 0 \<le> digit_val c \<and> digit_val c \<le> 9"
  by (drule is_digit_cases) (auto simp: digit_val_def)

lemma digit_char_add: "digit_char (v + 10 * k) = digit_char v"
  by (simp add: digit_char_def)

lemma digit_char_val: "is_digit c \<Longrightarrow> digit_char (digit_val c) = c"
  by (drule is_digit_cases) (auto simp: digit_val_def digit_char_def)

lemma digit_char_val_add: "is_digit c \<Longrightarrow> digit_char (digit_val c + 10 * k) = c"
  by (simp add: digit_char_add digit_char_val)

lemma div10:
  fixes e :: int
  assumes "0 \<le> e" "e \<le> 9"
  shows "(10 * k + e) div 10 = k"
  by (rule int_div_pos_eq [where r = e]) (use assms in simp_all)

lemma pad2_digits:
  assumes "is_digit p" "is_digit q"
  shows "pad2 (10 * digit_val p + digit_val q) = [p, q]"
proof -
  have "(10 * digit_val p + digit_val q) div 10 = digit_val p"
    using digit_val_range [OF assms(2)] by (intro div10) simp_all
  moreover have "digit_char (10 * digit_val p + digit_val q) = q"
    using digit_char_val_add [OF assms(2), of "digit_val p"] by (simp add: add.commute)
  ultimately show ?thesis
    by (simp add: pad2_def digit_char_val [OF assms(1)])
qed

lemma pad4_digits:
  assumes "is_digit a" "is_digit b" "is_digit c" "is_digit e"
  shows "pad4 (1000 * digit_val a + 100 * digit_val b + 10 * digit_val c + digit_val e)
         = [a, b, c, e]"
proof -
  let ?y = "1000 * digit_val a + 100 * digit_val b + 10 * digit_val c + digit_val e"
  let ?y1 = "100 * digit_val a + 10 * digit_val b + digit_val c"
  let ?y2 = "10 * digit_val a + digit_val b"
  have y: "?y = 10 * ?y1 + digit_val e" "?y1 = 10 * ?y2 + digit_val c"
    by simp_all
  have d1: "?y div 10 = ?y1"
    unfolding y(1) using digit_val_range [OF assms(4)] by (intro div10) simp_all
  have d2: "?y1 div 10 = ?y2"
    unfolding y(2) using digit_val_range [OF assms(3)] by (intro div10) simp_all
  have d3: "?y2 div 10 = digit_val a"
    using digit_val_range [OF assms(2)] by (intro div10) simp_all
  have "?y div 100 = ?y div 10 div 10" "?y div 1000 = ?y div 10 div 10 div 10"
    by (simp_all add: div_mult2_eq [symmetric])
  then have d: "?y div 100 = ?y2" "?y div 1000 = digit_val a"
    by (simp_all only: d1 d2 d3)
  have c4: "digit_char ?y = e"
    using digit_char_val_add [OF assms(4), of ?y1] by (simp add: algebra_simps)
  have c3: "digit_char ?y1 = c"
    using digit_char_val_add [OF assms(3), of ?y2] by (simp add: algebra_simps)
  have c2: "digit_char ?y2 = b"
    using digit_char_val_add [OF assms(2), of "digit_val a"] by (simp add: algebra_simps)
  show ?thesis
    unfolding pad4_def d d1 c4 c3 c2 digit_char_val [OF assms(1)] ..
qed

lemma year_range:
  assumes "is_digit a" "is_digit b" "is_digit c" "is_digit e"
  shows "0 \<le> 1000 * digit_val a + 100 * digit_val b + 10 * digit_val c + digit_val e"
    and "1000 * digit_val a + 100 * digit_val b + 10 * digit_val c + digit_val e \<le> 9999"
  using digit_val_range [OF assms(1)] digit_val_range [OF assms(2)]
    digit_val_range [OF assms(3)] digit_val_range [OF assms(4)]
  by linarith+

lemma list10:
  assumes "length s = 10"
  shows "s = [s ! 0, s ! 1, s ! 2, s ! 3, s ! 4, s ! 5, s ! 6, s ! 7, s ! 8, s ! 9]"
proof (rule nth_equalityI)
  show "length s = length [s ! 0, s ! 1, s ! 2, s ! 3, s ! 4, s ! 5, s ! 6, s ! 7, s ! 8, s ! 9]"
    using assms by simp
next
  fix i assume "i < length s"
  then have "i < 10" using assms by simp
  then have "i = 0 \<or> i = 1 \<or> i = 2 \<or> i = 3 \<or> i = 4 \<or> i = 5 \<or> i = 6 \<or> i = 7
      \<or> i = 8 \<or> i = 9"
    by arith
  then show "s ! i = [s ! 0, s ! 1, s ! 2, s ! 3, s ! 4, s ! 5, s ! 6, s ! 7, s ! 8, s ! 9] ! i"
    by (elim disjE) simp_all
qed

text \<open>A day of the calendar, turned into a time and back.\<close>

lemma DaysInYear_cases: "DaysInYear y = 365 \<or> DaysInYear y = 366"
  by (simp add: DaysInYear_def)

lemma month_cases:
  "1 \<le> m \<Longrightarrow> m \<le> (12::int) \<Longrightarrow>
   m = 1 \<or> m = 2 \<or> m = 3 \<or> m = 4 \<or> m = 5 \<or> m = 6 \<or> m = 7 \<or> m = 8 \<or> m = 9
   \<or> m = 10 \<or> m = 11 \<or> m = 12"
  by arith

lemma Day_MakeDay: "Day (k * msPerDay) = k"
  by (simp add: Day_def msPerDay_def)

lemma time_of_day_midnight:
  "HourFromTime (k * msPerDay) = 0" "MinFromTime (k * msPerDay) = 0"
  "SecFromTime (k * msPerDay) = 0" "msFromTime (k * msPerDay) = 0"
proof -
  have h: "k * 86400000 div 3600000 = k * 24" by simp
  have m: "k * 86400000 div 60000 = k * 1440" by simp
  have s: "k * 86400000 div 1000 = k * 86400" by simp
  show "HourFromTime (k * msPerDay) = 0"
    by (simp only: HourFromTime_def msPerDay_def h) simp
  show "MinFromTime (k * msPerDay) = 0"
    by (simp only: MinFromTime_def msPerDay_def m) simp
  show "SecFromTime (k * msPerDay) = 0"
    by (simp only: SecFromTime_def msPerDay_def s) simp
  show "msFromTime (k * msPerDay) = 0"
    by (simp add: msFromTime_def msPerDay_def)
qed

lemma day_of_year_range:
  assumes "1 \<le> m" "m \<le> 12" "1 \<le> d" "d \<le> DaysInMonth y m"
  shows "0 \<le> DaysBeforeMonth y m + (d - 1) \<and> DaysBeforeMonth y m + (d - 1) < DaysInYear y"
  using month_cases [OF assms(1,2)] DaysInYear_cases [of y] assms(3,4)
  by (elim disjE) (simp_all add: DaysBeforeMonth_def DaysInMonth_def)

lemma YearFromTime_MakeDay:
  assumes "1 \<le> m" "m \<le> 12" "1 \<le> d" "d \<le> DaysInMonth y m"
  shows "YearFromTime (MakeDay y m d * msPerDay) = y"
proof -
  have "YearFromDay (MakeDay y m d) = y"
    using day_of_year_range [OF assms]
    by (intro YearFromDay_unique) (simp_all add: MakeDay_def DayFromYear_Suc)
  then show ?thesis
    by (simp only: YearFromTime_def Day_MakeDay)
qed

lemma DayWithinYear_MakeDay:
  assumes "1 \<le> m" "m \<le> 12" "1 \<le> d" "d \<le> DaysInMonth y m"
  shows "DayWithinYear (MakeDay y m d * msPerDay) = DaysBeforeMonth y m + (d - 1)"
  by (simp only: DayWithinYear_def Day_MakeDay YearFromTime_MakeDay [OF assms])
     (simp add: MakeDay_def)

lemma InLeapYear_MakeDay:
  assumes "1 \<le> m" "m \<le> 12" "1 \<le> d" "d \<le> DaysInMonth y m"
  shows "InLeapYear (MakeDay y m d * msPerDay) = (if DaysInYear y = 366 then 1 else 0)"
  by (simp only: InLeapYear_def YearFromTime_MakeDay [OF assms])

lemma MonthFromTime_MakeDay:
  assumes "1 \<le> m" "m \<le> 12" "1 \<le> d" "d \<le> DaysInMonth y m"
  shows "MonthFromTime (MakeDay y m d * msPerDay) = m - 1"
proof -
  have "(let dd = DaysBeforeMonth y m + (d - 1); l = (if DaysInYear y = 366 then 1 else 0) in
      if dd < 31 then 0
      else if dd < 59 + l then 1
      else if dd < 90 + l then 2
      else if dd < 120 + l then 3
      else if dd < 151 + l then 4
      else if dd < 181 + l then 5
      else if dd < 212 + l then 6
      else if dd < 243 + l then 7
      else if dd < 273 + l then 8
      else if dd < 304 + l then 9
      else if dd < 334 + l then 10
      else 11) = m - (1::int)"
    using month_cases [OF assms(1,2)] DaysInYear_cases [of y] assms(3,4)
    by (elim disjE) (simp_all add: DaysBeforeMonth_def DaysInMonth_def)
  then show ?thesis
    by (simp only: MonthFromTime_def DayWithinYear_MakeDay [OF assms] InLeapYear_MakeDay [OF assms])
qed

lemma DateFromTime_MakeDay:
  assumes "1 \<le> m" "m \<le> 12" "1 \<le> d" "d \<le> DaysInMonth y m"
  shows "DateFromTime (MakeDay y m d * msPerDay) = d"
proof -
  have "(let dd = DaysBeforeMonth y m + (d - 1); l = (if DaysInYear y = 366 then 1 else 0);
          mm = m - 1 in
      if mm = 0 then dd + 1
      else if mm = 1 then dd - 30
      else if mm = 2 then dd - 58 - l
      else if mm = 3 then dd - 89 - l
      else if mm = 4 then dd - 119 - l
      else if mm = 5 then dd - 150 - l
      else if mm = 6 then dd - 180 - l
      else if mm = 7 then dd - 211 - l
      else if mm = 8 then dd - 242 - l
      else if mm = 9 then dd - 272 - l
      else if mm = 10 then dd - 303 - l
      else dd - 333 - l) = d"
    using month_cases [OF assms(1,2)] DaysInYear_cases [of y]
    by (elim disjE) (simp_all add: DaysBeforeMonth_def)
  then show ?thesis
    by (simp only: DateFromTime_def MonthFromTime_MakeDay [OF assms]
        DayWithinYear_MakeDay [OF assms] InLeapYear_MakeDay [OF assms])
qed

text \<open>The timestamp of a date-only string is the string itself, at midnight UTC.\<close>

lemma iso_string_MakeDay:
  assumes "1 \<le> m" "m \<le> 12" "1 \<le> d" "d \<le> DaysInMonth y m" "0 \<le> y" "y \<le> 9999"
  shows "iso_string (MakeDay y m d * msPerDay) =
           pad4 y @ ''-'' @ pad2 m @ ''-'' @ pad2 d @ ''T00:00:00.000Z''"
proof -
  have z: "pad2 0 = ''00''" "pad3 0 = ''000''"
    by (simp_all add: pad2_def pad3_def digit_char_def)
  show ?thesis
    using assms(5,6)
    by (simp add: iso_string_def iso_year_def YearFromTime_MakeDay [OF assms(1-4)]
        MonthFromTime_MakeDay [OF assms(1-4)] DateFromTime_MakeDay [OF assms(1-4)]
        time_of_day_midnight z)
qed

lemma iso_string_date_only:
  assumes "parse_date_only s = Some t"
  shows "iso_string t = s @ ''T00:00:00.000Z''"
proof -
  from assms have len: "length s = 10" and dash: "s ! 4 = CHR ''-''" "s ! 7 = CHR ''-''"
    by (simp_all add: parse_date_only_def split: if_splits)
  obtain a b c e p q f g where s: "s = [a, b, c, e, CHR ''-'', p, q, CHR ''-'', f, g]"
    by (rule that) (rule list10 [OF len, unfolded dash])
  let ?y = "1000 * digit_val a + 100 * digit_val b + 10 * digit_val c + digit_val e"
  let ?m = "10 * digit_val p + digit_val q"
  let ?d = "10 * digit_val f + digit_val g"
  have p: "parse_date_only [a, b, c, e, CHR ''-'', p, q, CHR ''-'', f, g] = Some t"
    using assms unfolding s .
  from p have digs: "is_digit a" "is_digit b" "is_digit c" "is_digit e"
    "is_digit p" "is_digit q" "is_digit f" "is_digit g"
    by (simp_all add: parse_date_only_def split: if_splits)
  from p have ok: "1 \<le> ?m" "?m \<le> 12" "1 \<le> ?d" "?d \<le> DaysInMonth ?y ?m"
    and t: "t = MakeDay ?y ?m ?d * msPerDay"
    by (simp_all add: parse_date_only_def Let_def split: if_splits)
  have "iso_string t = pad4 ?y @ ''-'' @ pad2 ?m @ ''-'' @ pad2 ?d @ ''T00:00:00.000Z''"
    unfolding t by (rule iso_string_MakeDay [OF ok year_range [OF digs(1-4)]])
  also have "\<dots> = [a, b, c, e, CHR ''-'', p, q, CHR ''-'', f, g] @ ''T00:00:00.000Z''"
    by (simp add: pad4_digits [OF digs(1-4)] pad2_digits [OF digs(5,6)] pad2_digits [OF digs(7,8)])
  finally show ?thesis
    unfolding s .
qed

subsection \<open>Evaluating dates\<close>

lemmas date_defs = newDate_def parse_date_only_def is_digit_def digit_val_def DaysInMonth_def
  DaysInYear_def MakeDay_def DayFromYear_def DaysBeforeMonth_def msPerDay_def today_def
  setHours0_def newDateNow_def TimeClip_def UTC_def LocalTime_def Day_def date_less_def

lemmas iso_defs = iso_string_def iso_year_def YearFromTime_def YearFromDay_def Day_def msPerDay_def
  DayFromYear_def MonthFromTime_def DateFromTime_def DayWithinYear_def InLeapYear_def DaysInYear_def
  HourFromTime_def MinFromTime_def SecFromTime_def msFromTime_def pad2_def pad3_def pad4_def
  pad6_def digit_char_def

subsection \<open>The shape of a submission\<close>

lemma handleSubmit_thrown:
  "taskData h u data = Inl e \<Longrightarrow>
   handleSubmit h (Some u) supabase task data = [SetLoading True, catch_toast e, SetLoading False]"
  by (simp add: handleSubmit_def)

lemma handleSubmit_sent:
  "taskData h u data = Inr td \<Longrightarrow>
   handleSubmit h (Some u) supabase task data =
     [SetLoading True, Request (request_of task td)]
     @ (case supabase (request_of task td) of
          Inl e \<Rightarrow> [catch_toast e]
        | Inr t' \<Rightarrow>
            [OnSave t',
             ShowToast (Toast ''Success''
               (case task of None \<Rightarrow> ''Task created successfully''
                | Some t \<Rightarrow> ''Task updated successfully'') None)])
     @ [SetLoading False]"
  by (simp add: handleSubmit_def request_of_def Let_def split: option.splits sum.splits)

lemma requests_handleSubmit:
  "requests (handleSubmit h user supabase task data) =
     (case user of
        None \<Rightarrow> []
      | Some u \<Rightarrow> (case taskData h u data of Inl e \<Rightarrow> [] | Inr td \<Rightarrow> [request_of task td]))"
proof (cases user)
  case None
  then show ?thesis by (simp add: handleSubmit_def trace_simps)
next
  case (Some u)
  show ?thesis
  proof (cases "taskData h u data")
    case (Inl e)
    then show ?thesis
      using Some by (simp add: handleSubmit_thrown trace_simps catch_toast_def)
  next
    case (Inr td)
    then show ?thesis
      using Some by (simp add: handleSubmit_sent trace_simps catch_toast_def split: sum.splits)
  qed
qed

lemma taskSchema_Inr:
  "taskSchema v = Inr data \<Longrightarrow>
   data_title data = raw_title v \<and> data_description data = raw_description v
   \<and> data_due_date data = raw_due_date v
   \<and> parse_status (raw_status v) = Some (data_status data)
   \<and> parse_priority (raw_priority v) = Some (data_priority data)
   \<and> title_issues (raw_title v) = []"
  by (auto simp: taskSchema_def Let_def enum_issues_def split: option.splits if_splits)

lemma taskData_Inr:
  "taskData h u data = Inr td \<Longrightarrow>
   \<exists>due. td = [(''title'', JString (data_title data)),
               (''description'', or_null (data_description data)),
               (''status'', JString (status_str (data_status data))),
               (''priority'', JString (priority_str (data_priority data))),
               (''due_date'', due),
               (''user_id'', JString (user_id u))]
     \<and> (case data_due_date data of
          None \<Rightarrow> due = JNull
        | Some s \<Rightarrow> if s = [] then due = JNull
                    else (\<exists>t. newDate h s = Some t \<and> due = JString (iso_string t)))"
  by (auto simp: taskData_def toISOString_def split: option.splits if_splits sum.splits)

lemma taskData_Inl:
  "taskData h u data = Inl e \<Longrightarrow>
   \<exists>s. data_due_date data = Some s \<and> s \<noteq> [] \<and> newDate h s = None
     \<and> e = RangeError (RangeError_message h)"
  by (auto simp: taskData_def toISOString_def split: option.splits if_splits sum.splits)

lemma length_iso_string: "24 \<le> length (iso_string t)"
  by (simp add: iso_string_def pad2_def pad3_def iso_year_def pad4_def pad6_def)

lemma iso_string_not_plain: "\<not> is_plain_date (iso_string t)"
  using length_iso_string [of t] by (simp add: is_plain_date_def)

subsection \<open>Overdue in a zone of constant offset\<close>

lemma int_div_less_iff:
  fixes x k n :: int
  assumes "0 < n"
  shows "x div n < k \<longleftrightarrow> x < k * n"
proof
  assume "x div n < k"
  then have "x div n + 1 \<le> k" by simp
  then have "n * (x div n + 1) \<le> n * k"
    using assms by (intro mult_left_mono) simp_all
  then have "n * (x div n) + n \<le> k * n"
    by (simp add: algebra_simps)
  with div_upper [OF assms, of x] show "x < k * n" by linarith
next
  assume lt: "x < k * n"
  show "x div n < k"
  proof (rule ccontr)
    assume "\<not> x div n < k"
    then have "k \<le> x div n" by simp
    then have "n * k \<le> n * (x div n)"
      using assms by (intro mult_left_mono) simp_all
    with div_lower [OF assms, of x] lt show False
      by (simp add: algebra_simps)
  qed
qed

text \<open>
  In a zone with a constant offset from UTC, the comparison of \<open>isOverdue\<close> is one of
  local calendar days: the local day of the due instant against the local day of now.
\<close>

lemma isOverdue_fixed_zone:
  assumes zone: "\<And>t u. LocalTZA h t u = c" and m: "today h = Some m"
  shows "isOverdue h task (Some s) \<longleftrightarrow>
           s \<noteq> [] \<and> (\<exists>t. newDate h s = Some t \<and> Day (t + c) < Day (Date_now h + c))
           \<and> status task \<noteq> ''completed''"
proof -
  from m have m': "m = Day (Date_now h + c) * msPerDay - c"
    by (auto simp: today_def setHours0_def newDateNow_def TimeClip_def UTC_def LocalTime_def zone
        split: if_splits option.splits)
  have "t < m \<longleftrightarrow> Day (t + c) < Day (Date_now h + c)" for t
  proof -
    have "t < m \<longleftrightarrow> t + c < Day (Date_now h + c) * msPerDay"
      unfolding m' by linarith
    also have "\<dots> \<longleftrightarrow> (t + c) div msPerDay < Day (Date_now h + c)"
      by (rule int_div_less_iff [symmetric]) (simp add: msPerDay_def)
    finally show ?thesis by (simp add: Day_def)
  qed
  then show ?thesis
    by (auto simp: isOverdue_def date_less_def m split: option.splits)
qed



section \<open>The claims\<close>




text \<open>
  C2, as amended.  For a submission by a signed-in user that passes validation with a
  non-empty due date:
  when the due date parses to a date, the one row sent holds the date's ISO timestamp
  (\<open>toISOString\<close>), which is never a plain date string; when it does not parse, nothing is
  sent and the error notification carries the message of the \<open>RangeError\<close>.  A due date
  that is a day of the calendar, \<open>YYYY-MM-DD\<close>, is sent as that day followed by
  \<open>T00:00:00.000Z\<close>.
\<close>

theorem due_date_sent:
  "taskSchema v = Inr data \<Longrightarrow> user = Some u \<Longrightarrow> raw_due_date v = Some s \<Longrightarrow> s \<noteq> [] \<Longrightarrow>
   (\<forall>t. newDate h s = Some t \<longrightarrow>
      (\<exists>r row. requests (form_handleSubmit h user supabase task v) = [r] \<and> payload r = [row]
         \<and> map_of row ''due_date'' = Some (JString (iso_string t)))
      \<and> \<not> is_plain_date (iso_string t))
   \<and> (newDate h s = None \<longrightarrow>
      requests (form_handleSubmit h user supabase task v) = []
      \<and> toasts (form_handleSubmit h user supabase task v) =
          [Toast ''Error''
             (if RangeError_message h = [] then ''Failed to save task'' else RangeError_message h)
             (Some ''destructive'')])
   \<and> (\<forall>t. parse_date_only s = Some t \<longrightarrow>
      (\<exists>r row. requests (form_handleSubmit h user supabase task v) = [r] \<and> payload r = [row]
         \<and> map_of row ''due_date'' = Some (JString (s @ ''T00:00:00.000Z''))))"
proof -
  assume v: "taskSchema v = Inr data" and u: "user = Some u"
    and s: "raw_due_date v = Some s" "s \<noteq> []"
  have date_only: "newDate h s = Some t \<and> iso_string t = s @ ''T00:00:00.000Z''"
    if "parse_date_only s = Some t" for t
    using that iso_string_date_only [OF that] by (simp add: newDate_def)
  have due: "data_due_date data = Some s"
    using taskSchema_Inr [OF v] s by simp
  have ev: "form_handleSubmit h user supabase task v = handleSubmit h (Some u) supabase task data"
    by (simp add: form_handleSubmit_def v u)
  show ?thesis
  proof (cases "newDate h s")
    case None
    then have "taskData h u data = Inl (RangeError (RangeError_message h))"
      using due s by (simp add: taskData_def toISOString_def)
    moreover have "parse_date_only s = None"
      using None date_only by (cases "parse_date_only s") simp_all
    ultimately show ?thesis
      using None by (simp add: ev handleSubmit_thrown trace_simps catch_toast_def message_or_def)
  next
    case (Some t)
    then have td: "taskData h u data =
        Inr [(''title'', JString (data_title data)),
             (''description'', or_null (data_description data)),
             (''status'', JString (status_str (data_status data))),
             (''priority'', JString (priority_str (data_priority data))),
             (''due_date'', JString (iso_string t)),
             (''user_id'', JString (user_id u))]"
      using due s by (simp add: taskData_def toISOString_def)
    have sent: "\<exists>r row. requests (form_handleSubmit h user supabase task v) = [r]
        \<and> payload r = [row] \<and> map_of row ''due_date'' = Some (JString (iso_string t))"
      by (simp add: ev requests_handleSubmit td request_of_def split: option.splits)
    have "\<exists>r row. requests (form_handleSubmit h user supabase task v) = [r]
        \<and> payload r = [row] \<and> map_of row ''due_date'' = Some (JString (s @ ''T00:00:00.000Z''))"
      if "parse_date_only s = Some t'" for t'
      using date_only [OF that] Some sent by simp
    then show ?thesis
      using Some iso_string_not_plain [of t] sent by simp
  qed
qed

theorem due_date_sent_witness:
  "requests (form_handleSubmit example_host (Some example_user) server_ok None example_values)
     = [Insert ''tasks''
          [[(''title'', JString ''Buy milk''), (''description'', JNull),
            (''status'', JString ''pending''), (''priority'', JString ''medium''),
            (''due_date'', JString ''2024-01-15T00:00:00.000Z''), (''user_id'', JString ''u1'')]]]
   \<and> requests (form_handleSubmit example_host (Some example_user) server_ok None
        (example_values\<lparr>raw_due_date := Some ''soon''\<rparr>)) = []
   \<and> toasts (form_handleSubmit example_host (Some example_user) server_ok None
        (example_values\<lparr>raw_due_date := Some ''soon''\<rparr>))
     = [Toast ''Error'' ''Invalid time value'' (Some ''destructive'')]"
proof -
  have v: "taskSchema example_values =
      Inr \<lparr>data_title = ''Buy milk'', data_description = Some [], data_status = Pending,
           data_priority = Medium, data_due_date = Some ''2024-01-15''\<rparr>"
    by (simp add: taskSchema_def example_values_def title_issues_def
        parse_status_def parse_priority_def enum_issues_def)
  have v': "taskSchema (example_values\<lparr>raw_due_date := Some ''soon''\<rparr>) =
      Inr \<lparr>data_title = ''Buy milk'', data_description = Some [], data_status = Pending,
           data_priority = Medium, data_due_date = Some ''soon''\<rparr>"
    by (simp add: taskSchema_def example_values_def title_issues_def
        parse_status_def parse_priority_def enum_issues_def)
  have s: "raw_due_date example_values = Some ''2024-01-15''"
    by (simp add: example_values_def)
  have s': "raw_due_date (example_values\<lparr>raw_due_date := Some ''soon''\<rparr>) = Some ''soon''"
    by simp
  have d: "newDate example_host ''2024-01-15'' = Some 1705276800000"
    by (simp add: date_defs)
  have d': "newDate example_host ''soon'' = None"
    by (simp add: newDate_def parse_date_only_def example_host_def)
  have i: "iso_string 1705276800000 = ''2024-01-15T00:00:00.000Z''"
    by (simp add: iso_defs)
  have m: "RangeError_message example_host = ''Invalid time value''"
    by (simp add: example_host_def)
  have a: "requests (form_handleSubmit example_host (Some example_user) server_ok None example_values)
     = [Insert ''tasks''
          [[(''title'', JString ''Buy milk''), (''description'', JNull),
            (''status'', JString ''pending''), (''priority'', JString ''medium''),
            (''due_date'', JString ''2024-01-15T00:00:00.000Z''), (''user_id'', JString ''u1'')]]]"
    by (simp add: form_handleSubmit_def v handleSubmit_def taskData_def or_null_def d i
        toISOString_def example_user_def server_ok_def trace_simps Let_def)
  show ?thesis
    using due_date_sent [where user = "Some example_user" and u = example_user
        and h = example_host and supabase = server_ok and task = None, OF v' refl s']
      due_date_sent [where user = "Some example_user" and u = example_user
        and h = example_host and supabase = server_ok and task = None, OF v refl s]
      d d' m a
    by simp
qed

text \<open>
  The due date \<open>2024-01-15\<close> is sent as \<open>2024-01-15T00:00:00.000Z\<close>, which is not a plain
  date string.
\<close>

theorem due_date_sent_counterexample:
  "raw_due_date example_values = Some ''2024-01-15''
   \<and> requests (form_handleSubmit example_host (Some example_user) server_ok None example_values)
     = [Insert ''tasks''
          [[(''title'', JString ''Buy milk''), (''description'', JNull),
            (''status'', JString ''pending''), (''priority'', JString ''medium''),
            (''due_date'', JString ''2024-01-15T00:00:00.000Z''), (''user_id'', JString ''u1'')]]]
   \<and> \<not> is_plain_date ''2024-01-15T00:00:00.000Z''"
proof -
  have v: "taskSchema example_values =
      Inr \<lparr>data_title = ''Buy milk'', data_description = Some [], data_status = Pending,
           data_priority = Medium, data_due_date = Some ''2024-01-15''\<rparr>"
    by (simp add: taskSchema_def example_values_def title_issues_def
        parse_status_def parse_priority_def enum_issues_def)
  have d: "newDate example_host ''2024-01-15'' = Some 1705276800000"
    by (simp add: date_defs)
  have i: "iso_string 1705276800000 = ''2024-01-15T00:00:00.000Z''"
    by (simp add: iso_defs)
  show ?thesis
    by (simp add: form_handleSubmit_def v handleSubmit_def taskData_def or_null_def d i
        toISOString_def example_user_def server_ok_def trace_simps Let_def is_plain_date_def)
       (simp add: example_values_def)
qed

text \<open>
  C3.  In every row that a submission passing validation sends, an empty description is
  \<open>null\<close>, an empty due date is \<open>null\<close>, and on create the row is inserted with the
  user's id under \<open>user_id\<close>.
\<close>

theorem handleSubmit_normalizes:
  "taskSchema v = Inr data \<Longrightarrow> user = Some u \<Longrightarrow>
   r \<in> set (requests (form_handleSubmit h user supabase task v)) \<Longrightarrow> row \<in> set (payload r) \<Longrightarrow>
   (raw_description v = Some [] \<longrightarrow> map_of row ''description'' = Some JNull)
   \<and> (raw_due_date v = Some [] \<longrightarrow> map_of row ''due_date'' = Some JNull)
   \<and> (task = None \<longrightarrow> r = Insert ''tasks'' [row] \<and> map_of row ''user_id'' = Some (JString (user_id u)))"
proof -
  assume v: "taskSchema v = Inr data" and u: "user = Some u"
    and r: "r \<in> set (requests (form_handleSubmit h user supabase task v))"
    and row: "row \<in> set (payload r)"
  from r v u obtain td where td: "taskData h u data = Inr td"
    by (cases "taskData h u data") (simp_all add: form_handleSubmit_def requests_handleSubmit)
  from r v u td have r': "r = request_of task td"
    by (simp add: form_handleSubmit_def requests_handleSubmit)
  from row r' have row': "row = td"
    by (simp add: request_of_def split: option.splits)
  from taskData_Inr [OF td] taskSchema_Inr [OF v] show ?thesis
    unfolding row' r' by (auto simp: or_null_def request_of_def)
qed

theorem handleSubmit_normalizes_witness:
  "requests (form_handleSubmit example_host (Some example_user) server_ok None
      (example_values\<lparr>raw_due_date := Some []\<rparr>))
     = [Insert ''tasks''
          [[(''title'', JString ''Buy milk''), (''description'', JNull),
            (''status'', JString ''pending''), (''priority'', JString ''medium''),
            (''due_date'', JNull), (''user_id'', JString ''u1'')]]]
   \<and> map_of [(''title'', JString ''Buy milk''), (''description'', JNull),
            (''status'', JString ''pending''), (''priority'', JString ''medium''),
            (''due_date'', JNull), (''user_id'', JString ''u1'')] ''description'' = Some JNull"
proof -
  let ?row = "[(''title'', JString ''Buy milk''), (''description'', JNull),
            (''status'', JString ''pending''), (''priority'', JString ''medium''),
            (''due_date'', JNull), (''user_id'', JString ''u1'')]"
  let ?v = "example_values\<lparr>raw_due_date := Some []\<rparr>"
  have v: "taskSchema ?v = Inr example_data"
    by (simp add: taskSchema_def example_values_def example_data_def title_issues_def
        parse_status_def parse_priority_def enum_issues_def)
  have req: "requests (form_handleSubmit example_host (Some example_user) server_ok None ?v)
      = [Insert ''tasks'' [?row]]"
    by (simp add: form_handleSubmit_def v handleSubmit_def taskData_def or_null_def example_data_def
        example_user_def server_ok_def trace_simps Let_def)
  have r: "Insert ''tasks'' [?row]
      \<in> set (requests (form_handleSubmit example_host (Some example_user) server_ok None ?v))"
    by (simp add: req)
  have row: "?row \<in> set (payload (Insert ''tasks'' [?row]))"
    by simp
  show ?thesis
    using handleSubmit_normalizes [OF v refl r row] req by (simp add: example_values_def)
qed

text \<open>
  C4.  A submission with an empty title is rejected by the schema with the message
  ``Title is required'', and one whose title has 101 characters with the message about
  the length; neither makes a request.  A title of 1 to 100 characters raises no issue
  for the title.
\<close>

theorem title_validation:
  "(raw_title v = [] \<longrightarrow>
      (\<exists>issues. form_handleSubmit h user supabase task v = [SetErrors issues]
         \<and> field_error issues ''title'' = Some ''Title is required'')
      \<and> requests (form_handleSubmit h user supabase task v) = [])
   \<and> (length (raw_title v) = 101 \<longrightarrow>
      (\<exists>issues. form_handleSubmit h user supabase task v = [SetErrors issues]
         \<and> field_error issues ''title'' = Some ''Title must be less than 100 characters'')
      \<and> requests (form_handleSubmit h user supabase task v) = [])
   \<and> (1 \<le> length (raw_title v) \<and> length (raw_title v) \<le> 100 \<longrightarrow>
      title_issues (raw_title v) = []
      \<and> (\<forall>issues. taskSchema v = Inl issues \<longrightarrow> field_error issues ''title'' = None))"
  by (auto simp: form_handleSubmit_def taskSchema_def Let_def title_issues_def enum_issues_def
      field_error_def trace_simps split: option.splits sum.splits)

theorem title_validation_witness:
  "form_handleSubmit example_host (Some example_user) server_ok None (example_values\<lparr>raw_title := []\<rparr>)
     = [SetErrors [Issue ''title'' too_small (Some ''Title is required'')]]
   \<and> form_handleSubmit example_host (Some example_user) server_ok None
       (example_values\<lparr>raw_title := replicate 101 CHR ''a''\<rparr>)
     = [SetErrors [Issue ''title'' too_big (Some ''Title must be less than 100 characters'')]]
   \<and> title_issues (raw_title example_values) = []"
  using title_validation [of "example_values\<lparr>raw_title := []\<rparr>" example_host "Some example_user" server_ok None]
    title_validation [of "example_values\<lparr>raw_title := replicate 101 CHR ''a''\<rparr>" example_host
      "Some example_user" server_ok None]
    title_validation [of example_values example_host "Some example_user" server_ok None]
  by (simp add: form_handleSubmit_def taskSchema_def title_issues_def parse_status_def
      parse_priority_def enum_issues_def example_values_def)

text \<open>
  C5.  A quick status change makes exactly one request: an update of table \<open>tasks\<close>,
  filtered by the task's id, whose row has the single key \<open>status\<close>.  When the server
  answers with a row, the update callback is called once, with that row.
\<close>

theorem handleStatusChange_request:
  "requests (handleStatusChange supabase task newStatus) =
     [Update ''tasks'' [(''status'', JString (status_str newStatus))] (''id'', id' task)]
   \<and> (\<forall>r \<in> set (requests (handleStatusChange supabase task newStatus)).
        \<forall>row \<in> set (payload r). map fst row = [''status''])
   \<and> (\<forall>updatedTask.
        supabase (Update ''tasks'' [(''status'', JString (status_str newStatus))] (''id'', id' task))
          = Inr updatedTask
        \<longrightarrow> updated (handleStatusChange supabase task newStatus) = [updatedTask])"
  by (auto simp: handleStatusChange_def Let_def trace_simps split: sum.splits)

theorem handleStatusChange_request_witness:
  "requests (handleStatusChange server_ok example_task Completed) =
     [Update ''tasks'' [(''status'', JString ''completed'')] (''id'', ''t1'')]
   \<and> updated (handleStatusChange server_ok example_task Completed) =
     [example_task\<lparr>updated_at := ''2024-01-15T17:00:00.000Z''\<rparr>]"
  using handleStatusChange_request [of server_ok example_task Completed]
  by (simp add: server_ok_def example_task_def)

text \<open>
  C6.  When the request of a quick status change fails, one error notification is shown
  (the failure's message, or a fallback when it has none) and the update callback is not
  called.  Whatever the outcome, the handler's last act is to clear \<open>updating\<close>, so the
  control is enabled again.
\<close>

theorem handleStatusChange_failure:
  "updating_after u (handleStatusChange supabase task newStatus) = False
   \<and> last (handleStatusChange supabase task newStatus) = SetUpdating False
   \<and> (\<forall>e. supabase (Update ''tasks'' [(''status'', JString (status_str newStatus))] (''id'', id' task))
          = Inl e
        \<longrightarrow> toasts (handleStatusChange supabase task newStatus) =
              [Toast ''Error'' (if message e = [] then ''Failed to update task status'' else message e)
                 (Some ''destructive'')]
            \<and> updated (handleStatusChange supabase task newStatus) = [])"
  by (auto simp: handleStatusChange_def Let_def trace_simps updating_after_def message_or_def
      split: sum.splits)

theorem handleStatusChange_failure_witness:
  "updating_after True (handleStatusChange server_down example_task Completed) = False
   \<and> toasts (handleStatusChange server_down example_task Completed) =
       [Toast ''Error'' ''TypeError: Failed to fetch'' (Some ''destructive'')]
   \<and> updated (handleStatusChange server_down example_task Completed) = []"
  using handleStatusChange_failure [of True server_down example_task Completed]
  by (simp add: server_down_def example_task_def)

text \<open>
  C7.  When the request of a submission in update mode fails, the save callback is not
  called, one error notification is shown with the failure's message (or a fallback when
  it has none), the values of the fields are unchanged and \<open>loading\<close> is false again.
\<close>

theorem handleSubmit_update_failure:
  "requests (handleSubmit h user supabase (Some t) data) = [r] \<Longrightarrow> supabase r = Inl e \<Longrightarrow>
   saved (handleSubmit h user supabase (Some t) data) = []
   \<and> toasts (handleSubmit h user supabase (Some t) data) =
       [Toast ''Error'' (if message e = [] then ''Failed to save task'' else message e)
          (Some ''destructive'')]
   \<and> field_values (form_after s (handleSubmit h user supabase (Some t) data)) = field_values s
   \<and> loading (form_after s (handleSubmit h user supabase (Some t) data)) = False"
proof -
  assume req: "requests (handleSubmit h user supabase (Some t) data) = [r]"
    and fail: "supabase r = Inl e"
  from req obtain u td where u: "user = Some u" and td: "taskData h u data = Inr td"
    and r: "r = request_of (Some t) td"
    by (auto simp: requests_handleSubmit split: option.splits sum.splits)
  have evs: "handleSubmit h user supabase (Some t) data =
      [SetLoading True, Request r, catch_toast e, SetLoading False]"
    using handleSubmit_sent [OF td, of supabase "Some t"] fail u r by simp
  show ?thesis
    by (simp add: evs trace_simps catch_toast_def message_or_def form_after_def)
qed

theorem handleSubmit_update_failure_witness:
  "requests (handleSubmit example_host (Some example_user) server_down (Some example_task) example_data)
     = [Update ''tasks''
          [(''title'', JString ''Buy milk''), (''description'', JNull),
           (''status'', JString ''pending''), (''priority'', JString ''medium''),
           (''due_date'', JNull), (''user_id'', JString ''u1'')] (''id'', ''t1'')]
   \<and> saved (handleSubmit example_host (Some example_user) server_down (Some example_task) example_data) = []
   \<and> toasts (handleSubmit example_host (Some example_user) server_down (Some example_task) example_data)
     = [Toast ''Error'' ''TypeError: Failed to fetch'' (Some ''destructive'')]
   \<and> loading (form_after \<lparr>loading = False, field_values = example_values\<rparr>
        (handleSubmit example_host (Some example_user) server_down (Some example_task) example_data))
     = False
   \<and> field_values (form_after \<lparr>loading = False, field_values = example_values\<rparr>
        (handleSubmit example_host (Some example_user) server_down (Some example_task) example_data))
     = example_values"
proof -
  have req: "requests (handleSubmit example_host (Some example_user) server_down (Some example_task) example_data)
     = [Update ''tasks''
          [(''title'', JString ''Buy milk''), (''description'', JNull),
           (''status'', JString ''pending''), (''priority'', JString ''medium''),
           (''due_date'', JNull), (''user_id'', JString ''u1'')] (''id'', ''t1'')]"
    by (simp add: handleSubmit_def taskData_def or_null_def example_data_def example_user_def
        example_task_def server_down_def trace_simps catch_toast_def Let_def)
  have fail: "server_down (Update ''tasks''
          [(''title'', JString ''Buy milk''), (''description'', JNull),
           (''status'', JString ''pending''), (''priority'', JString ''medium''),
           (''due_date'', JNull), (''user_id'', JString ''u1'')] (''id'', ''t1''))
      = Inl (PostgrestError ''TypeError: Failed to fetch'')"
    by (simp add: server_down_def)
  show ?thesis
    using handleSubmit_update_failure [OF req fail, of "\<lparr>loading = False, field_values = example_values\<rparr>"] req
    by simp
qed

text \<open>
  C8.  When the request of a submission succeeds, the save callback is called once, with
  the row the server returned, and one success notification is shown: ``created'' when
  the form had no task, ``updated'' when it had one.
\<close>

theorem handleSubmit_success:
  "requests (handleSubmit h user supabase task data) = [r] \<Longrightarrow> supabase r = Inr t' \<Longrightarrow>
   saved (handleSubmit h user supabase task data) = [t']
   \<and> toasts (handleSubmit h user supabase task data) =
       [Toast ''Success''
          (case task of None \<Rightarrow> ''Task created successfully''
           | Some t \<Rightarrow> ''Task updated successfully'') None]"
proof -
  assume req: "requests (handleSubmit h user supabase task data) = [r]"
    and ok: "supabase r = Inr t'"
  from req obtain u td where u: "user = Some u" and td: "taskData h u data = Inr td"
    and r: "r = request_of task td"
    by (auto simp: requests_handleSubmit split: option.splits sum.splits)
  show ?thesis
    using handleSubmit_sent [OF td, of supabase task] ok u r
    by (simp add: trace_simps)
qed

theorem handleSubmit_success_witness:
  "saved (handleSubmit example_host (Some example_user) server_ok None example_data)
     = [example_task\<lparr>updated_at := ''2024-01-15T17:00:00.000Z''\<rparr>]
   \<and> toasts (handleSubmit example_host (Some example_user) server_ok None example_data)
     = [Toast ''Success'' ''Task created successfully'' None]
   \<and> saved (handleSubmit example_host (Some example_user) server_ok (Some example_task) example_data)
     = [example_task\<lparr>updated_at := ''2024-01-15T17:00:00.000Z''\<rparr>]
   \<and> toasts (handleSubmit example_host (Some example_user) server_ok (Some example_task) example_data)
     = [Toast ''Success'' ''Task updated successfully'' None]"
proof -
  let ?row = "[(''title'', JString ''Buy milk''), (''description'', JNull),
           (''status'', JString ''pending''), (''priority'', JString ''medium''),
           (''due_date'', JNull), (''user_id'', JString ''u1'')]"
  have req1: "requests (handleSubmit example_host (Some example_user) server_ok None example_data)
     = [Insert ''tasks'' [?row]]"
    by (simp add: handleSubmit_def taskData_def or_null_def example_data_def example_user_def
        server_ok_def trace_simps Let_def)
  have req2: "requests (handleSubmit example_host (Some example_user) server_ok (Some example_task) example_data)
     = [Update ''tasks'' ?row (''id'', ''t1'')]"
    by (simp add: handleSubmit_def taskData_def or_null_def example_data_def example_user_def
        example_task_def server_ok_def trace_simps Let_def)
  have ok1: "server_ok (Insert ''tasks'' [?row]) = Inr (example_task\<lparr>updated_at := ''2024-01-15T17:00:00.000Z''\<rparr>)"
    by (simp add: server_ok_def)
  have ok2: "server_ok (Update ''tasks'' ?row (''id'', ''t1'')) = Inr (example_task\<lparr>updated_at := ''2024-01-15T17:00:00.000Z''\<rparr>)"
    by (simp add: server_ok_def)
  show ?thesis
    using handleSubmit_success [OF req1 ok1] handleSubmit_success [OF req2 ok2]
    by simp
qed

text \<open>
  C9.  Each of the three statuses and each of the three priorities has a non-empty style
  class, and every other string gets the default style.  Both mappings are functions of
  their argument alone.
\<close>

theorem color_mapping:
  "getStatusColor ''pending'' \<noteq> [] \<and> getStatusColor ''in_progress'' \<noteq> []
   \<and> getStatusColor ''completed'' \<noteq> []
   \<and> getPriorityColor ''low'' \<noteq> [] \<and> getPriorityColor ''medium'' \<noteq> []
   \<and> getPriorityColor ''high'' \<noteq> []
   \<and> (s \<notin> {''pending'', ''in_progress'', ''completed''} \<longrightarrow> getStatusColor s = default_style)
   \<and> (p \<notin> {''low'', ''medium'', ''high''} \<longrightarrow> getPriorityColor p = default_style)
   \<and> default_style \<noteq> []"
  by (simp add: getStatusColor_def getPriorityColor_def default_style_def)

theorem color_mapping_witness:
  "getStatusColor ''archived'' = ''bg-secondary text-secondary-foreground hover:bg-secondary/80''
   \<and> getPriorityColor ''urgent'' = ''bg-secondary text-secondary-foreground hover:bg-secondary/80''
   \<and> getStatusColor ''completed'' \<noteq> []"
  using color_mapping [of "''archived''" "''urgent''"]
  by (simp add: default_style_def)

text \<open>
  C10.  Without an authenticated user the submit handler does nothing: no request, no
  save callback, no notification, and the form's state (so also \<open>loading\<close>) is what it
  was.
\<close>

theorem handleSubmit_no_user:
  "handleSubmit h None supabase task data = []
   \<and> requests (handleSubmit h None supabase task data) = []
   \<and> saved (handleSubmit h None supabase task data) = []
   \<and> toasts (handleSubmit h None supabase task data) = []
   \<and> form_after s (handleSubmit h None supabase task data) = s"
  by (simp add: handleSubmit_def trace_simps form_after_def)

end
